theory Spec2Isabelle
  imports Complex_Main "HOL-Library.Stream"
begin

section \<open>Data model\<close>

text \<open>
  An event is the dictionary \<open>{'date': ..., 'type': ...}\<close> of \<open>churn_model.py\<close>; both
  fields are strings. A customer is the dictionary the forecaster reads: only the keys
  \<open>'events'\<close> and \<open>'last_activity_date'\<close> are used by the model.
\<close>

record event =
  date :: string
  type :: string

record customer_data =
  events :: "event list"
  last_activity_date :: string

text \<open>The exceptions that the two functions of \<open>churn_model.py\<close> can raise.\<close>

datatype error = ValueError | OverflowError

section \<open>Library operations the source calls\<close>

subsection \<open>Python slicing\<close>

text \<open>
  \<open>xs[-k:]\<close> for an integer \<open>k\<close>. The start index is \<open>-k\<close>: a negative start counts
  from the end (clipped at the front), a start of zero or more counts from the front. So
  \<open>xs[-0:]\<close> is the whole list and \<open>xs[-(-3):]\<close> drops the first three elements.
\<close>

definition slice_from_neg :: "'a list \<Rightarrow> int \<Rightarrow> 'a list" where
  "slice_from_neg xs k =
     (if 0 < k then drop (length xs - nat k) xs else drop (nat (- k)) xs)"

subsection \<open>numpy\<close>

text \<open>
  \<open>np.linspace(start, stop, num)\<close> with the default \<open>endpoint=True\<close>, over the reals,
  following numpy's implementation: \<open>y = arange(0, num)\<close>, scaled by
  \<open>step = (stop - start) / (num - 1)\<close> when \<open>num - 1 > 0\<close> and by \<open>stop - start\<close>
  otherwise, shifted by \<open>start\<close>, and, only when \<open>num > 1\<close>, the last entry
  overwritten by \<open>stop\<close>.
\<close>

definition linspace :: "real \<Rightarrow> real \<Rightarrow> nat \<Rightarrow> real list" where
  "linspace start stop num =
     (let divisor = int num - 1;
          delta = stop - start;
          y = map real [0..<num];
          y1 = (if 0 < divisor then
                  (let step = delta / real_of_int divisor
                   in if step = 0 then map (\<lambda>v. v / real_of_int divisor * delta) y
                      else map (\<lambda>v. v * step) y)
                else map (\<lambda>v. v * delta) y);
          y2 = map (\<lambda>v. v + start) y1
      in if 1 < num then y2[num - 1 := stop] else y2)"

text \<open>
  \<open>np.mean\<close> and \<open>np.std\<close> (population standard deviation, \<open>ddof = 0\<close>) of a list.
  On an empty list both return \<open>nan\<close> (with a warning, not an exception): \<open>None\<close>
  stands for \<open>nan\<close>.
\<close>

definition np_mean :: "real list \<Rightarrow> real option" where
  "np_mean xs = (if xs = [] then None else Some (sum_list xs / real (length xs)))"

definition np_std :: "real list \<Rightarrow> real option" where
  "np_std xs =
     (if xs = [] then None
      else (let m = sum_list xs / real (length xs)
            in Some (sqrt (sum_list (map (\<lambda>x. \<bar>x - m\<bar> ^ 2) xs) / real (length xs)))))"

subsection \<open>The random module\<close>

text \<open>
  The module's global generator is a state threaded through the calls: a stream of raw
  draws, one consumed per call. \<open>random.random()\<close> returns a float in \<open>[0, 1)\<close> with
  53 bits of resolution; \<open>random.choice(seq)\<close> returns \<open>seq[i]\<close> for a drawn index
  \<open>i < len(seq)\<close>.
\<close>

type_synonym rng = "nat stream"

definition random_random :: "rng \<Rightarrow> real \<times> rng" where
  "random_random g = (real (shd g mod 2 ^ 53) / 2 ^ 53, stl g)"

definition random_choice :: "'a list \<Rightarrow> rng \<Rightarrow> 'a \<times> rng" where
  "random_choice seq g = (seq ! (shd g mod length seq), stl g)"

subsection \<open>datetime\<close>

text \<open>
  A \<open>datetime\<close> whose time of day is midnight, as \<open>strptime\<close> with the format
  \<open>'%Y-%m-%d'\<close> returns it: year, month and day.
\<close>

record pydate =
  year :: nat
  month :: nat
  day :: nat

definition is_leap :: "nat \<Rightarrow> bool" where
  "is_leap y = (y mod 4 = 0 \<and> (y mod 100 \<noteq> 0 \<or> y mod 400 = 0))"

definition days_in_month :: "nat \<Rightarrow> nat \<Rightarrow> nat" where
  "days_in_month y m =
     (if m = 2 then (if is_leap y then 29 else 28)
      else if m = 4 \<or> m = 6 \<or> m = 9 \<or> m = 11 then 30 else 31)"

definition is_digit :: "char \<Rightarrow> bool" where
  "is_digit c = (List.member ''0123456789'' c)"

definition digit_value :: "char \<Rightarrow> nat" where
  "digit_value c = of_char c - 48"

text \<open>
  \<open>datetime.strptime(s, '%Y-%m-%d')\<close>. The format compiles to the regular expression
  \<open>(\d\d\d\d)-(1[0-2]|0[1-9]|[1-9])-(3[0-1]|[1-2]\d|0[1-9]|[1-9]| [1-9])\<close>, matched at
  the start of \<open>s\<close>; text left over after the match, a year of 0 and a day beyond the end
  of the month raise \<open>ValueError\<close>. The three functions below match the three groups, the
  alternatives tried in the expression's order.
\<close>

fun match_year :: "string \<Rightarrow> (nat \<times> string) option" where
  "match_year (a # b # c # d # rest) =
     (if is_digit a \<and> is_digit b \<and> is_digit c \<and> is_digit d
      then Some (1000 * digit_value a + 100 * digit_value b + 10 * digit_value c
                   + digit_value d, rest)
      else None)"
| "match_year _ = None"

definition is_nonzero_digit :: "char \<Rightarrow> bool" where
  "is_nonzero_digit c = (List.member ''123456789'' c)"

fun match_month :: "string \<Rightarrow> (nat \<times> string) option" where
  "match_month (a # b # rest) =
     (if a = CHR ''1'' \<and> List.member ''012'' b then Some (10 + digit_value b, rest)
      else if a = CHR ''0'' \<and> is_nonzero_digit b then Some (digit_value b, rest)
      else if is_nonzero_digit a then Some (digit_value a, b # rest)
      else None)"
| "match_month [a] = (if is_nonzero_digit a then Some (digit_value a, []) else None)"
| "match_month [] = None"

fun match_day :: "string \<Rightarrow> (nat \<times> string) option" where
  "match_day (a # b # rest) =
     (if a = CHR ''3'' \<and> List.member ''01'' b then Some (30 + digit_value b, rest)
      else if List.member ''12'' a \<and> is_digit b
        then Some (10 * digit_value a + digit_value b, rest)
      else if a = CHR ''0'' \<and> is_nonzero_digit b then Some (digit_value b, rest)
      else if is_nonzero_digit a then Some (digit_value a, b # rest)
      else if a = CHR '' '' \<and> is_nonzero_digit b then Some (digit_value b, rest)
      else None)"
| "match_day [a] = (if is_nonzero_digit a then Some (digit_value a, []) else None)"
| "match_day [] = None"

fun match_dash :: "string \<Rightarrow> string option" where
  "match_dash (c # rest) = (if c = CHR ''-'' then Some rest else None)"
| "match_dash [] = None"

definition strptime :: "string \<Rightarrow> error + pydate" where
  "strptime s =
     (case match_year s of None \<Rightarrow> Inl ValueError | Some (y, r1) \<Rightarrow>
     (case match_dash r1 of None \<Rightarrow> Inl ValueError | Some r2 \<Rightarrow>
     (case match_month r2 of None \<Rightarrow> Inl ValueError | Some (m, r3) \<Rightarrow>
     (case match_dash r3 of None \<Rightarrow> Inl ValueError | Some r4 \<Rightarrow>
     (case match_day r4 of None \<Rightarrow> Inl ValueError | Some (d, r5) \<Rightarrow>
        (if r5 \<noteq> [] then Inl ValueError
         else if y < 1 \<or> days_in_month y m < d then Inl ValueError
         else Inr \<lparr>year = y, month = m, day = d\<rparr>))))))"

text \<open>
  \<open>d + timedelta(days=1)\<close>: the next calendar day; past 9999-12-31 the addition raises
  \<open>OverflowError\<close> (date value out of range).
\<close>

definition add_one_day :: "pydate \<Rightarrow> error + pydate" where
  "add_one_day d =
     (if day d < days_in_month (year d) (month d) then Inr (d\<lparr>day := day d + 1\<rparr>)
      else if month d < 12 then Inr (d\<lparr>month := month d + 1, day := 1\<rparr>)
      else if year d < 9999 then Inr \<lparr>year = year d + 1, month = 1, day = 1\<rparr>
      else Inl OverflowError)"

text \<open>\<open>d.strftime('%Y-%m-%d')\<close>: the fields as zero-padded decimals.\<close>

fun zero_padded :: "nat \<Rightarrow> nat \<Rightarrow> string" where
  "zero_padded 0 n = []"
| "zero_padded (Suc k) n = zero_padded k (n div 10) @ [char_of (48 + n mod 10)]"

definition strftime :: "pydate \<Rightarrow> string" where
  "strftime d = zero_padded 4 (year d) @ ''-'' @ zero_padded 2 (month d) @ ''-''
                  @ zero_padded 2 (day d)"

section \<open>The event risk scorer\<close>

text \<open>
  One pass of the loop body of \<open>predict_churn_risk_simplified_rnn\<close>: the if/elif chain
  on the event's type, updating the running score with \<open>weight = weights[i]\<close>.
\<close>

definition score_step :: "real list \<Rightarrow> nat \<times> event \<Rightarrow> real \<Rightarrow> real" where
  "score_step weights = (\<lambda>(i, event) score.
     (let weight = weights ! i
      in if type event = ''inactivity'' then score + 0.2 * weight
         else if type event = ''support_query'' then score + 0.15 * weight
         else if type event = ''make_purchase'' then score - 0.1 * weight
         else if type event = ''upgrade_plan'' then score - 0.2 * weight
         else if type event = ''login'' \<or> type event = ''view_feature''
           then score - 0.05 * weight
         else score))"

text \<open>The events the scorer considers, and the weights it gives them.\<close>

definition recent_events :: "event list \<Rightarrow> int \<Rightarrow> event list" where
  "recent_events event_sequence customer_history_length =
     slice_from_neg event_sequence customer_history_length"

definition recency_weights :: "event list \<Rightarrow> int \<Rightarrow> real list" where
  "recency_weights event_sequence customer_history_length =
     linspace 0.1 1.0 (length (recent_events event_sequence customer_history_length))"

text \<open>The running score after the loop over \<open>enumerate(recent_events)\<close>.\<close>

definition running_score :: "event list \<Rightarrow> int \<Rightarrow> real" where
  "running_score event_sequence customer_history_length =
     fold (score_step (recency_weights event_sequence customer_history_length))
       (enumerate 0 (recent_events event_sequence customer_history_length)) 0"

definition predict_churn_risk_simplified_rnn :: "event list \<Rightarrow> int \<Rightarrow> real" where
  "predict_churn_risk_simplified_rnn event_sequence customer_history_length =
     (let score = running_score event_sequence customer_history_length;
          churn_prob = 1 / (1 + exp (- score))
      in min 1.0 (max 0.0 churn_prob))"

text \<open>The default value of the parameter \<open>customer_history_length\<close>.\<close>

definition default_history_length :: int where
  "default_history_length = 30"

section \<open>The Monte Carlo forecaster\<close>

text \<open>
  The inner loop \<open>for day_forecast in range(forecast_days)\<close>, as a recursion on the
  number of days left. The state is the list of simulated events, the cursor date and
  the generator.
\<close>

fun simulate_days ::
  "nat \<Rightarrow> real \<Rightarrow> event list \<times> pydate \<times> rng \<Rightarrow> error + (event list \<times> pydate \<times> rng)" where
  "simulate_days 0 current_risk st = Inr st"
| "simulate_days (Suc n) current_risk (simulated, sim_current_date, g) =
     (let activity_prob = 0.6 * (1 - current_risk);
          (r, g1) = random_random g;
          (simulated', g2) =
            (if r < activity_prob then
               (let (event_type, g2) =
                      random_choice [''login'', ''view_feature'', ''make_purchase'',
                                     ''support_query''] g1
                in (simulated @ [\<lparr>date = strftime sim_current_date, type = event_type\<rparr>], g2))
             else
               (simulated @ [\<lparr>date = strftime sim_current_date, type = ''inactivity''\<rparr>], g1))
      in case add_one_day sim_current_date of
           Inl e \<Rightarrow> Inl e
         | Inr d \<Rightarrow> simulate_days n current_risk (simulated', d, g2))"

text \<open>
  One trial: the body of \<open>for _ in range(num_simulations)\<close>. It parses the customer's
  last activity date, steps to the next day, simulates the future and rescores the
  history followed by the simulated events.
\<close>

definition simulate_trial ::
  "customer_data \<Rightarrow> real \<Rightarrow> int \<Rightarrow> rng \<Rightarrow> error + (event list \<times> real \<times> rng)" where
  "simulate_trial customer current_risk forecast_days g =
     (case strptime (last_activity_date customer) of
        Inl e \<Rightarrow> Inl e
      | Inr d0 \<Rightarrow>
     (case add_one_day d0 of
        Inl e \<Rightarrow> Inl e
      | Inr sim_current_date \<Rightarrow>
     (case simulate_days (nat forecast_days) current_risk ([], sim_current_date, g) of
        Inl e \<Rightarrow> Inl e
      | Inr (simulated_events_for_forecast, _, g') \<Rightarrow>
          (let full_event_sequence = events customer @ simulated_events_for_forecast;
               sim_churn_prob =
                 predict_churn_risk_simplified_rnn full_event_sequence default_history_length
           in Inr (simulated_events_for_forecast, sim_churn_prob, g')))))"

text \<open>The outer loop, as a recursion on the number of trials left.\<close>

fun run_simulations ::
  "nat \<Rightarrow> customer_data \<Rightarrow> real \<Rightarrow> int \<Rightarrow> real list \<times> rng \<Rightarrow> error + (real list \<times> rng)" where
  "run_simulations 0 customer current_risk forecast_days st = Inr st"
| "run_simulations (Suc n) customer current_risk forecast_days (churn_probabilities, g) =
     (case simulate_trial customer current_risk forecast_days g of
        Inl e \<Rightarrow> Inl e
      | Inr (_, sim_churn_prob, g') \<Rightarrow>
          run_simulations n customer current_risk forecast_days
            (churn_probabilities @ [sim_churn_prob], g'))"

text \<open>
  \<open>monte_carlo_churn_prediction\<close>: the result is the triple of mean, standard
  deviation and samples, together with the generator's final state.
\<close>

definition monte_carlo_churn_prediction ::
  "customer_data \<Rightarrow> int \<Rightarrow> int \<Rightarrow> rng
     \<Rightarrow> error + ((real option \<times> real option \<times> real list) \<times> rng)" where
  "monte_carlo_churn_prediction customer num_simulations forecast_days g =
     (let current_risk =
            predict_churn_risk_simplified_rnn (events customer) default_history_length
      in case run_simulations (nat num_simulations) customer current_risk forecast_days ([], g) of
           Inl e \<Rightarrow> Inl e
         | Inr (churn_probabilities, g') \<Rightarrow>
             Inr ((np_mean churn_probabilities, np_std churn_probabilities,
                   churn_probabilities), g'))"

section \<open>The specification's weight table and the weighted sum\<close>

text \<open>
  The table of section 4.1 of the specification, as a function from event type to signed
  magnitude; a type outside the table contributes 0. It is compared below with the
  if/elif chain of the source (\<open>score_step\<close>).
\<close>

definition magnitude :: "string \<Rightarrow> real" where
  "magnitude t =
     (if t = ''inactivity'' then 0.20
      else if t = ''support_query'' then 0.15
      else if t = ''make_purchase'' then - 0.10
      else if t = ''upgrade_plan'' then - 0.20
      else if t = ''login'' then - 0.05
      else if t = ''view_feature'' then - 0.05
      else 0)"

text \<open>
  The running score of a list of considered event types, as a sum over positions, and
  the closed form of the weight of position \<open>i\<close> among \<open>n\<close> considered events.
\<close>

definition weighted_sum :: "string list \<Rightarrow> real" where
  "weighted_sum ts =
     (\<Sum>j<length ts. linspace 0.1 1.0 (length ts) ! j * magnitude (ts ! j))"

definition wt :: "nat \<Rightarrow> nat \<Rightarrow> real" where
  "wt n i = 1 / 10 + real i * (9 / 10) / (real n - 1)"

definition shifted :: "string \<Rightarrow> real" where
  "shifted t = magnitude t + 1 / 5"

text \<open>The vocabulary of the simulated future: the four activity types and inactivity.\<close>

definition future_type :: "event \<Rightarrow> bool" where
  "future_type e = (type e = ''login'' \<or> type e = ''view_feature'' \<or> type e = ''make_purchase''
                     \<or> type e = ''support_query'' \<or> type e = ''inactivity'')"

section \<open>Properties of the library operations\<close>

lemma slice_from_neg_Nil: "slice_from_neg [] k = []"
  by (simp add: slice_from_neg_def)

lemma linspace_0: "linspace a b 0 = []"
  by (simp add: linspace_def)

section \<open>The running score as a weighted sum\<close>

lemma score_step_magnitude:
  "score_step ws (i, e) s = s + ws ! i * magnitude (type e)"
  by (simp add: score_step_def magnitude_def Let_def)

lemma fold_score_step:
  "fold (score_step ws) (enumerate k es) s
     = s + (\<Sum>j<length es. ws ! (k + j) * magnitude (type (es ! j)))"
proof (induction es arbitrary: k s)
  case Nil
  then show ?case by simp
next
  case (Cons e es)
  show ?case
    by (simp add: Cons.IH score_step_magnitude sum.lessThan_Suc_shift del: sum.lessThan_Suc)
qed

lemma length_linspace: "length (linspace a b n) = n"
  by (simp add: linspace_def Let_def)

lemma running_score_weighted_sum:
  "running_score h k = weighted_sum (map type (recent_events h k))"
  by (simp add: running_score_def recency_weights_def fold_score_step weighted_sum_def)

lemma linspace_nth:
  assumes "i < n"
  shows "linspace a b n ! i = (if n = 1 then a else a + real i * (b - a) / (real n - 1))"
proof (cases "n = 1")
  case True
  with assms show ?thesis by (simp add: linspace_def Let_def)
next
  case False
  with assms have n2: "1 < n" by simp
  then have r: "real_of_int (int n - 1) = real n - 1" by simp
  show ?thesis
  proof (cases "i = n - 1")
    case True
    with n2 have "linspace a b n ! i = b"
      by (simp add: linspace_def Let_def)
    moreover from True n2 have "a + real i * (b - a) / (real n - 1) = b"
      by (simp add: of_nat_diff)
    ultimately show ?thesis using False by simp
  next
    case ne: False
    with assms n2 show ?thesis
      by (simp add: linspace_def Let_def r False)
  qed
qed


lemma linspace_wt: "i < n \<Longrightarrow> linspace (1 / 10) 1 n ! i = wt n i"
  by (simp add: linspace_nth wt_def)

lemma weighted_sum_wt:
  "weighted_sum ts = (\<Sum>j<length ts. wt (length ts) j * magnitude (ts ! j))"
  unfolding weighted_sum_def by (rule sum.cong) (simp_all add: linspace_wt)

lemma shifted_nonneg: "0 \<le> shifted t"
  by (simp add: shifted_def magnitude_def)

lemma shifted_upgrade: "shifted ''upgrade_plan'' = 0"
  by (simp add: shifted_def magnitude_def)

lemma weighted_sum_shifted:
  "weighted_sum ts = (\<Sum>j<length ts. wt (length ts) j * shifted (ts ! j))
                       - 1 / 5 * (\<Sum>j<length ts. wt (length ts) j)"
  by (simp add: weighted_sum_wt shifted_def algebra_simps sum.distrib sum_distrib_left)

lemma sum_real_lessThan: "(\<Sum>j<n. real j) = real n * (real n - 1) / 2"
  by (induction n) (simp_all add: field_simps)

lemma wt_nonneg: "0 < n \<Longrightarrow> 0 \<le> wt n i"
  by (simp add: wt_def)

lemma wt_total: "(\<Sum>j<n. wt n j) = (if n \<le> 1 then real n / 10 else 11 / 20 * real n)"
proof -
  have "wt n j = 1 / 10 + (9 / 10) / (real n - 1) * real j" for j
    by (simp add: wt_def)
  then have "(\<Sum>j<n. wt n j) = real n / 10 + (9 / 10) / (real n - 1) * (\<Sum>j<n. real j)"
    by (simp add: sum.distrib sum_distrib_left)
  also have "\<dots> = (if n \<le> 1 then real n / 10 else 11 / 20 * real n)"
    by (cases "n \<le> 1") (auto simp add: sum_real_lessThan field_simps)
  finally show ?thesis .
qed

lemma wt_total_mono: "(\<Sum>j<n. wt n j) \<le> (\<Sum>j<Suc n. wt (Suc n) j)"
  unfolding wt_total by (auto simp add: field_simps)

lemma wt_longer: "j < n \<Longrightarrow> wt (Suc n) j \<le> wt n j"
proof -
  assume "j < n"
  then have "real j * (9 / 10) / real n \<le> real j * (9 / 10) / (real n - 1)"
    by (cases "n = 1") (auto intro!: divide_left_mono mult_nonneg_nonneg)
  then show ?thesis by (simp add: wt_def)
qed

lemma wt_later: "wt (Suc n) j \<le> wt (Suc n) (Suc j)"
proof -
  have "0 \<le> real (Suc n) - 1" by simp
  then have "real j * (9 / 10) / (real (Suc n) - 1) \<le> real (Suc j) * (9 / 10) / (real (Suc n) - 1)"
    by (intro divide_right_mono) simp_all
  then show ?thesis by (simp add: wt_def)
qed

lemma weighted_sum_append_upgrade:
  "weighted_sum (ts @ [''upgrade_plan'']) \<le> weighted_sum ts"
proof -
  let ?n = "length ts"
  have "(\<Sum>j<Suc ?n. wt (Suc ?n) j * shifted ((ts @ [''upgrade_plan'']) ! j))
          = (\<Sum>j<?n. wt (Suc ?n) j * shifted (ts ! j))"
    by (simp add: nth_append shifted_upgrade)
  also have "\<dots> \<le> (\<Sum>j<?n. wt ?n j * shifted (ts ! j))"
    by (intro sum_mono mult_right_mono wt_longer shifted_nonneg) simp
  finally have "(\<Sum>j<Suc ?n. wt (Suc ?n) j * shifted ((ts @ [''upgrade_plan'']) ! j))
                  \<le> (\<Sum>j<?n. wt ?n j * shifted (ts ! j))" .
  with wt_total_mono [of ?n] show ?thesis
    unfolding weighted_sum_shifted by (simp del: sum.lessThan_Suc)
qed

lemma weighted_sum_shift_upgrade:
  "weighted_sum (tl ts @ [''upgrade_plan'']) \<le> weighted_sum ts"
proof (cases ts)
  case Nil
  then show ?thesis by (simp add: weighted_sum_wt wt_def magnitude_def)
next
  case (Cons x xs)
  let ?k = "length xs"
  have "(\<Sum>j<Suc ?k. wt (Suc ?k) j * shifted ((xs @ [''upgrade_plan'']) ! j))
          = (\<Sum>j<?k. wt (Suc ?k) j * shifted (xs ! j))"
    by (simp add: nth_append shifted_upgrade)
  also have "\<dots> \<le> (\<Sum>j<?k. wt (Suc ?k) (Suc j) * shifted (xs ! j))"
    by (intro sum_mono mult_right_mono wt_later shifted_nonneg)
  also have "\<dots> \<le> wt (Suc ?k) 0 * shifted x + (\<Sum>j<?k. wt (Suc ?k) (Suc j) * shifted (xs ! j))"
    by (simp add: wt_nonneg shifted_nonneg)
  also have "\<dots> = (\<Sum>j<Suc ?k. wt (Suc ?k) j * shifted ((x # xs) ! j))"
    by (simp add: sum.lessThan_Suc_shift del: sum.lessThan_Suc)
  finally show ?thesis
    unfolding weighted_sum_shifted Cons by simp
qed

lemma slice_from_neg_snoc:
  "0 < k \<Longrightarrow> slice_from_neg (ts @ [u]) k
     = (if length ts < nat k then ts @ [u] else tl (slice_from_neg ts k) @ [u])"
  by (auto simp add: slice_from_neg_def tl_drop Suc_diff_le drop_Suc)

lemma map_type_recent_events:
  "map type (recent_events h k) = slice_from_neg (map type h) k"
  by (simp add: recent_events_def slice_from_neg_def drop_map)

lemma running_score_upgrade:
  assumes "0 < k"
  shows "running_score (h @ [\<lparr>date = d, type = ''upgrade_plan''\<rparr>]) k \<le> running_score h k"
proof (cases "length h < nat k")
  case True
  then have "slice_from_neg (map type h) k = map type h"
    using assms by (simp add: slice_from_neg_def)
  with True assms show ?thesis
    by (simp add: running_score_weighted_sum map_type_recent_events slice_from_neg_snoc
        weighted_sum_append_upgrade)
next
  case False
  with assms show ?thesis
    by (simp add: running_score_weighted_sum map_type_recent_events slice_from_neg_snoc
        weighted_sum_shift_upgrade)
qed

lemma predict_logistic:
  "predict_churn_risk_simplified_rnn h k = 1 / (1 + exp (- running_score h k))"
proof -
  let ?e = "exp (- running_score h k)"
  have "0 < ?e" by simp
  then have "0 \<le> 1 / (1 + ?e)" and "1 / (1 + ?e) \<le> 1"
    by (simp_all add: add_pos_pos less_imp_le)
  then show ?thesis
    by (simp add: predict_churn_risk_simplified_rnn_def Let_def min_def max_def)
qed

lemma predict_mono:
  assumes "running_score h1 k1 \<le> running_score h2 k2"
  shows "predict_churn_risk_simplified_rnn h1 k1 \<le> predict_churn_risk_simplified_rnn h2 k2"
proof -
  from assms have "exp (- running_score h2 k2) \<le> exp (- running_score h1 k1)" by simp
  then show ?thesis
    unfolding predict_logistic by (intro divide_left_mono) (simp_all add: add_pos_pos)
qed

lemma running_score_Nil: "running_score [] k = 0"
  by (simp add: running_score_def recent_events_def slice_from_neg_Nil linspace_0)

lemma predict_range:
  "0 \<le> predict_churn_risk_simplified_rnn h k \<and> predict_churn_risk_simplified_rnn h k \<le> 1"
proof -
  have "0 < exp (- running_score h k)" by simp
  then show ?thesis
    unfolding predict_logistic by (simp add: add_pos_pos less_imp_le)
qed

lemma linspace_1: "linspace a b (Suc 0) = [a]"
  by (simp add: linspace_def)

text \<open>
  With a positive window that the history fills, events older than the window do not
  reach the scorer.
\<close>

lemma window_positive:
  assumes "0 < k" and "nat k \<le> length h"
  shows "recent_events (older @ h) k = recent_events h k"
    and "predict_churn_risk_simplified_rnn (older @ h) k = predict_churn_risk_simplified_rnn h k"
proof -
  show r: "recent_events (older @ h) k = recent_events h k"
    using assms by (simp add: recent_events_def slice_from_neg_def)
  show "predict_churn_risk_simplified_rnn (older @ h) k = predict_churn_risk_simplified_rnn h k"
    by (simp add: predict_logistic running_score_weighted_sum r)
qed

section \<open>Claims about the scorer\<close>

text \<open>
  C8: the scorer on an empty event history returns exactly 0.5, for every window: no
  event is considered, the running score is 0 and the logistic function of 0 is 1/2.
\<close>

theorem scorer_empty_history:
  "running_score [] k = 0 \<and> predict_churn_risk_simplified_rnn [] k = 1 / 2"
  by (simp add: predict_churn_risk_simplified_rnn_def running_score_Nil)

text \<open>
  C3: appending one \<open>upgrade_plan\<close> event at the most recent position never increases
  the scorer's result under the default window: the score of the longer history is less
  than or equal to the score of the shorter one, whatever the date of the new event.
\<close>

theorem upgrade_never_increases_risk:
  "predict_churn_risk_simplified_rnn (h @ [\<lparr>date = d, type = ''upgrade_plan''\<rparr>])
       default_history_length
     \<le> predict_churn_risk_simplified_rnn h default_history_length"
proof (rule predict_mono)
  have "0 < default_history_length" by (simp add: default_history_length_def)
  then show "running_score (h @ [\<lparr>date = d, type = ''upgrade_plan''\<rparr>]) default_history_length
               \<le> running_score h default_history_length"
    by (rule running_score_upgrade)
qed

text \<open>
  C10: the scorer's result depends only on the sequence of event types. Two histories
  with the same list of \<open>type\<close> fields (so of equal length) get the same score, whatever
  their \<open>date\<close> fields and for every window.
\<close>

theorem scorer_ignores_dates:
  assumes "map type h1 = map type h2"
  shows "predict_churn_risk_simplified_rnn h1 k = predict_churn_risk_simplified_rnn h2 k"
proof -
  from assms have "map type (recent_events h1 k) = map type (recent_events h2 k)"
    by (simp add: map_type_recent_events)
  then show ?thesis
    by (simp add: predict_logistic running_score_weighted_sum)
qed

text \<open>C10, at two histories whose dates differ.\<close>

theorem scorer_ignores_dates_witness:
  "map type [\<lparr>date = ''2024-06-01'', type = ''login''\<rparr>, \<lparr>date = ''2024-06-05'', type = ''inactivity''\<rparr>]
     = map type [\<lparr>date = ''1999-12-31'', type = ''login''\<rparr>, \<lparr>date = ''not a date'', type = ''inactivity''\<rparr>]
   \<and> predict_churn_risk_simplified_rnn
         [\<lparr>date = ''2024-06-01'', type = ''login''\<rparr>, \<lparr>date = ''2024-06-05'', type = ''inactivity''\<rparr>] 30
     = predict_churn_risk_simplified_rnn
         [\<lparr>date = ''1999-12-31'', type = ''login''\<rparr>, \<lparr>date = ''not a date'', type = ''inactivity''\<rparr>] 30"
  using scorer_ignores_dates
    [of "[\<lparr>date = ''2024-06-01'', type = ''login''\<rparr>, \<lparr>date = ''2024-06-05'', type = ''inactivity''\<rparr>]"
        "[\<lparr>date = ''1999-12-31'', type = ''login''\<rparr>, \<lparr>date = ''not a date'', type = ''inactivity''\<rparr>]" 30]
  by simp

text \<open>
  C1, as the code has it: when exactly one event is considered, \<open>np.linspace(0.1, 1.0, 1)\<close>
  is the single point 0.1 (the start of the range), so the event's recency weight is 0.1
  and the running score is 0.1 times the magnitude of its type.
\<close>

theorem single_event_weight:
  assumes "recent_events h k = [e]"
  shows "recency_weights h k = [1 / 10] \<and> running_score h k = 1 / 10 * magnitude (type e)"
  using assms
  by (simp add: recency_weights_def running_score_def linspace_1 score_step_magnitude)

text \<open>C1 as amended, at a two-event history under a window of 1.\<close>

theorem single_event_weight_witness:
  "recent_events [\<lparr>date = ''2024-06-10'', type = ''login''\<rparr>,
                  \<lparr>date = ''2024-06-15'', type = ''inactivity''\<rparr>] 1
     = [\<lparr>date = ''2024-06-15'', type = ''inactivity''\<rparr>]
   \<and> recency_weights [\<lparr>date = ''2024-06-10'', type = ''login''\<rparr>,
                  \<lparr>date = ''2024-06-15'', type = ''inactivity''\<rparr>] 1 = [1 / 10]
   \<and> running_score [\<lparr>date = ''2024-06-10'', type = ''login''\<rparr>,
                  \<lparr>date = ''2024-06-15'', type = ''inactivity''\<rparr>] 1 = 1 / 50"
proof -
  have r: "recent_events [\<lparr>date = ''2024-06-10'', type = ''login''\<rparr>,
                  \<lparr>date = ''2024-06-15'', type = ''inactivity''\<rparr>] 1
     = [\<lparr>date = ''2024-06-15'', type = ''inactivity''\<rparr>]"
    by (simp add: recent_events_def slice_from_neg_def)
  show ?thesis using r single_event_weight [OF r] by (simp add: magnitude_def)
qed

text \<open>
  C1 as stated fails: for a history of one \<open>inactivity\<close> event under the default window,
  the weight is not 1.0 and the running score is not 1.0 times the magnitude.
\<close>

theorem single_event_weight_counterexample:
  "recent_events [\<lparr>date = ''2024-06-15'', type = ''inactivity''\<rparr>] 30
     = [\<lparr>date = ''2024-06-15'', type = ''inactivity''\<rparr>]
   \<and> recency_weights [\<lparr>date = ''2024-06-15'', type = ''inactivity''\<rparr>] 30 \<noteq> [1]
   \<and> running_score [\<lparr>date = ''2024-06-15'', type = ''inactivity''\<rparr>] 30
        \<noteq> 1 * magnitude ''inactivity''"
  by (simp add: recent_events_def slice_from_neg_def recency_weights_def running_score_def
      linspace_1 score_step_magnitude magnitude_def)

text \<open>
  C4 at a window of 0: the slice \<open>event_sequence[-0:]\<close> is the whole history, so the one
  event of the history is considered although the window holds no event, and the score
  differs from the score of the history without it.
\<close>

theorem window_zero_considers_whole_history:
  "recent_events [\<lparr>date = ''2024-06-15'', type = ''inactivity''\<rparr>] 0
     = [\<lparr>date = ''2024-06-15'', type = ''inactivity''\<rparr>]
   \<and> predict_churn_risk_simplified_rnn [] 0 = 1 / 2
   \<and> predict_churn_risk_simplified_rnn [\<lparr>date = ''2024-06-15'', type = ''inactivity''\<rparr>] 0
        = 1 / (1 + exp (- (1 / 50)))
   \<and> predict_churn_risk_simplified_rnn [\<lparr>date = ''2024-06-15'', type = ''inactivity''\<rparr>] 0
        \<noteq> predict_churn_risk_simplified_rnn [] 0"
  by (simp add: predict_logistic recent_events_def slice_from_neg_def recency_weights_def
      running_score_def linspace_1 linspace_0 score_step_magnitude magnitude_def)

section \<open>Dates: what strptime returns\<close>

lemma digit_value_le: "is_digit c \<Longrightarrow> digit_value c \<le> 9"
  by (auto simp add: is_digit_def digit_value_def)

lemma nonzero_digit_value_le: "is_nonzero_digit c \<Longrightarrow> digit_value c \<le> 9"
  by (auto simp add: is_nonzero_digit_def digit_value_def)

lemma match_year_le: "match_year s = Some (y, r) \<Longrightarrow> y \<le> 9999"
proof (induction s rule: match_year.induct)
  case (1 a b c d rest)
  then have "is_digit a" "is_digit b" "is_digit c" "is_digit d"
    and y: "y = 1000 * digit_value a + 100 * digit_value b + 10 * digit_value c + digit_value d"
    by (auto split: if_splits)
  then have "digit_value a \<le> 9" "digit_value b \<le> 9" "digit_value c \<le> 9" "digit_value d \<le> 9"
    by (simp_all add: digit_value_le)
  with y show ?case by linarith
qed simp_all

lemma match_month_le: "match_month s = Some (m, r) \<Longrightarrow> m \<le> 12"
proof (induction s rule: match_month.induct)
  case (1 a b rest)
  then show ?case
    by (auto split: if_splits dest: nonzero_digit_value_le simp add: digit_value_def)
next
  case (2 a)
  then show ?case by (auto split: if_splits dest: nonzero_digit_value_le)
qed simp

lemma strptime_valid:
  assumes "strptime s = Inr d"
  shows "year d \<le> 9999 \<and> month d \<le> 12 \<and> day d \<le> days_in_month (year d) (month d)"
  using assms
  by (auto simp add: strptime_def split: option.splits prod.splits if_splits
      dest: match_year_le match_month_le)

lemma strptime_error: "strptime s = Inl e \<Longrightarrow> e = ValueError"
  by (auto simp add: strptime_def split: option.splits prod.splits if_splits)

section \<open>The day loop of a trial\<close>

lemma add_one_day_year:
  "year d < 9999 \<Longrightarrow> \<exists>d'. add_one_day d = Inr d' \<and> year d' \<le> year d + 1"
  by (simp add: add_one_day_def)

lemma add_one_day_overflow:
  assumes "strptime s = Inr d"
  shows "add_one_day d = Inl e \<longleftrightarrow> e = OverflowError \<and> d = \<lparr>year = 9999, month = 12, day = 31\<rparr>"
proof -
  from strptime_valid [OF assms]
  have v: "year d \<le> 9999" "month d \<le> 12" "day d \<le> days_in_month (year d) (month d)"
    by simp_all
  show ?thesis
  proof
    assume "add_one_day d = Inl e"
    then have "e = OverflowError" "\<not> day d < days_in_month (year d) (month d)"
      "\<not> month d < 12" "\<not> year d < 9999"
      by (auto simp add: add_one_day_def split: if_splits)
    with v have "year d = 9999" "month d = 12" "day d = days_in_month 9999 12" by simp_all
    with \<open>e = OverflowError\<close> show "e = OverflowError \<and> d = \<lparr>year = 9999, month = 12, day = 31\<rparr>"
      by (simp add: days_in_month_def)
  next
    assume "e = OverflowError \<and> d = \<lparr>year = 9999, month = 12, day = 31\<rparr>"
    then show "add_one_day d = Inl e"
      by (simp add: add_one_day_def days_in_month_def)
  qed
qed

lemma simulate_days_returns:
  "year d + n \<le> 9999 \<Longrightarrow> \<exists>r. simulate_days n risk (sim, d, g) = Inr r"
proof (induction n arbitrary: sim d g)
  case 0
  then show ?case by simp
next
  case (Suc n)
  then have "year d < 9999" by simp
  from add_one_day_year [OF this] obtain d' where
    d': "add_one_day d = Inr d'" "year d' \<le> year d + 1" by blast
  with Suc.prems have "year d' + n \<le> 9999" by simp
  from Suc.IH [OF this] d' show ?case
    by (simp add: Let_def split: prod.splits)
qed

lemma random_choice_future:
  "random_choice [''login'', ''view_feature'', ''make_purchase'', ''support_query''] g = (t, g')
     \<Longrightarrow> future_type \<lparr>date = s, type = t\<rparr>"
proof -
  assume a: "random_choice [''login'', ''view_feature'', ''make_purchase'', ''support_query''] g = (t, g')"
  have "shd g mod 4 < 4" by simp
  then have "shd g mod 4 = 0 \<or> shd g mod 4 = 1 \<or> shd g mod 4 = 2 \<or> shd g mod 4 = 3"
    by linarith
  with a show ?thesis
    by (auto simp add: random_choice_def future_type_def)
qed

lemma simulate_days_types:
  "simulate_days n risk (sim0, d, g) = Inr (sim, d', g') \<Longrightarrow> list_all future_type sim0
     \<Longrightarrow> list_all future_type sim \<and> length sim = length sim0 + n"
proof (induction n arbitrary: sim0 d g)
  case 0
  then show ?case by simp
next
  case (Suc n)
  obtain r g1 where r: "random_random g = (r, g1)" by (cases "random_random g")
  obtain t g2 where t: "random_choice [''login'', ''view_feature'', ''make_purchase'', ''support_query''] g1 = (t, g2)"
    by (cases "random_choice [''login'', ''view_feature'', ''make_purchase'', ''support_query''] g1")
  from Suc.prems(1) obtain d1 where d1: "add_one_day d = Inr d1"
    by (auto simp add: Let_def r t split: sum.splits if_splits)
  show ?case
  proof (cases "r < 0.6 * (1 - risk)")
    case True
    with Suc.prems(1) r t d1
    have "simulate_days n risk (sim0 @ [\<lparr>date = strftime d, type = t\<rparr>], d1, g2) = Inr (sim, d', g')"
      by (simp add: Let_def)
    moreover have "list_all future_type (sim0 @ [\<lparr>date = strftime d, type = t\<rparr>])"
      using Suc.prems(2) random_choice_future [OF t] by simp
    ultimately show ?thesis using Suc.IH by fastforce
  next
    case False
    with Suc.prems(1) r t d1
    have "simulate_days n risk (sim0 @ [\<lparr>date = strftime d, type = ''inactivity''\<rparr>], d1, g1) = Inr (sim, d', g')"
      by (simp add: Let_def)
    moreover have "list_all future_type (sim0 @ [\<lparr>date = strftime d, type = ''inactivity''\<rparr>])"
    proof -
      have "future_type \<lparr>date = strftime d, type = ''inactivity''\<rparr>"
        by (simp add: future_type_def)
      with Suc.prems(2) show ?thesis by simp
    qed
    ultimately show ?thesis using Suc.IH by fastforce
  qed
qed

text \<open>One simulated day from 2024-06-16, at a risk of 1/2 and a generator that draws zeros.\<close>

lemma strftime_example: "strftime \<lparr>year = 2024, month = 6, day = 16\<rparr> = ''2024-06-16''"
  by code_simp

lemma simulate_days_example:
  "simulate_days (Suc 0) (1 / 2) ([], \<lparr>year = 2024, month = 6, day = 16\<rparr>, sconst 0)
     = Inr ([\<lparr>date = strftime \<lparr>year = 2024, month = 6, day = 16\<rparr>, type = ''login''\<rparr>],
            \<lparr>year = 2024, month = 6, day = 17\<rparr>, sconst 0)"
  by (simp add: random_random_def random_choice_def add_one_day_def days_in_month_def)

section \<open>Trials and the simulation loop\<close>

lemma simulate_trial_error:
  "strptime (last_activity_date c) = Inl e \<Longrightarrow> simulate_trial c risk F g = Inl e"
  by (simp add: simulate_trial_def)

lemma simulate_trial_returns:
  assumes "strptime (last_activity_date c) = Inr d0" and "year d0 + 1 + nat F \<le> 9999"
  shows "\<exists>r. simulate_trial c risk F g = Inr r"
proof -
  from assms(2) have "year d0 < 9999" by simp
  from add_one_day_year [OF this] obtain d1 where
    d1: "add_one_day d0 = Inr d1" "year d1 \<le> year d0 + 1" by blast
  with assms(2) have "year d1 + nat F \<le> 9999" by simp
  from simulate_days_returns [OF this] obtain r where
    "simulate_days (nat F) risk ([], d1, g) = Inr r" by blast
  with assms(1) d1(1) show ?thesis
    by (simp add: simulate_trial_def Let_def split: prod.splits)
qed

lemma simulate_trial_result:
  assumes "simulate_trial c risk F g = Inr (sim, p, g')"
  shows "list_all future_type sim \<and> length sim = nat F
           \<and> p = predict_churn_risk_simplified_rnn (events c @ sim) default_history_length"
proof -
  from assms obtain d0 where d0: "strptime (last_activity_date c) = Inr d0"
    by (cases "strptime (last_activity_date c)") (simp_all add: simulate_trial_def)
  from assms d0 obtain d1 where d1: "add_one_day d0 = Inr d1"
    by (cases "add_one_day d0") (simp_all add: simulate_trial_def)
  from assms d0 d1 obtain r where r: "simulate_days (nat F) risk ([], d1, g) = Inr r"
    by (cases "simulate_days (nat F) risk ([], d1, g)") (simp_all add: simulate_trial_def)
  obtain sim' d2 g2 where r': "r = (sim', d2, g2)" by (cases r)
  from assms d0 d1 r r' have e: "sim' = sim" "g2 = g'"
    and p: "p = predict_churn_risk_simplified_rnn (events c @ sim) default_history_length"
    by (auto simp add: simulate_trial_def Let_def)
  from r r' e have "simulate_days (nat F) risk ([], d1, g) = Inr (sim, d2, g')" by simp
  from simulate_days_types [OF this] p show ?thesis by simp
qed

lemma simulate_trial_zero:
  assumes "strptime (last_activity_date c) = Inr d0"
    and "d0 \<noteq> \<lparr>year = 9999, month = 12, day = 31\<rparr>" and "F \<le> 0"
  shows "simulate_trial c risk F g
           = Inr ([], predict_churn_risk_simplified_rnn (events c) default_history_length, g)"
proof -
  from add_one_day_overflow [OF assms(1)] assms(2)
  obtain d1 where "add_one_day d0 = Inr d1" by (cases "add_one_day d0") auto
  with assms(1,3) show ?thesis by (simp add: simulate_trial_def)
qed

lemma simulate_trial_nonpositive:
  "F \<le> 0 \<Longrightarrow> simulate_trial c risk F g = simulate_trial c risk 0 g"
proof -
  assume "F \<le> 0"
  then have n: "nat F = nat 0" by simp
  show ?thesis unfolding simulate_trial_def n ..
qed

lemma run_simulations_error:
  "strptime (last_activity_date c) = Inl e \<Longrightarrow> run_simulations (Suc n) c risk F (probs, g) = Inl e"
  by (simp add: simulate_trial_error)

lemma run_simulations_returns:
  assumes "strptime (last_activity_date c) = Inr d0" and "year d0 + 1 + nat F \<le> 9999"
  shows "\<exists>r. run_simulations n c risk F (probs, g) = Inr r"
proof (induction n arbitrary: probs g)
  case 0
  show ?case by simp
next
  case (Suc n)
  from simulate_trial_returns [OF assms] obtain sim p g' where
    "simulate_trial c risk F g = Inr (sim, p, g')" by (metis prod_cases3)
  with Suc.IH show ?case by simp
qed

lemma run_simulations_step:
  assumes "run_simulations (Suc n) c risk F (probs0, g) = Inr (probs, g')"
  obtains sim g1 where
    "run_simulations n c risk F
       (probs0 @ [predict_churn_risk_simplified_rnn (events c @ sim) default_history_length], g1)
       = Inr (probs, g')"
proof -
  from assms obtain t where t: "simulate_trial c risk F g = Inr t"
    by (cases "simulate_trial c risk F g") simp_all
  obtain sim p g1 where t': "t = (sim, p, g1)" by (cases t)
  from assms t t'
  have r: "run_simulations n c risk F (probs0 @ [p], g1) = Inr (probs, g')" by simp
  from t t' have "simulate_trial c risk F g = Inr (sim, p, g1)" by simp
  from simulate_trial_result [OF this]
  have "p = predict_churn_risk_simplified_rnn (events c @ sim) default_history_length" by simp
  with r that show thesis by simp
qed

lemma run_simulations_length:
  "run_simulations n c risk F (probs0, g) = Inr (probs, g') \<Longrightarrow>
     length probs = length probs0 + n"
proof (induction n arbitrary: probs0 g)
  case 0
  then show ?case by simp
next
  case (Suc n)
  from run_simulations_step [OF Suc.prems] obtain sim g1 where
    "run_simulations n c risk F
       (probs0 @ [predict_churn_risk_simplified_rnn (events c @ sim) default_history_length], g1)
       = Inr (probs, g')" .
  from Suc.IH [OF this] show ?case by simp
qed

lemma run_simulations_range:
  "run_simulations n c risk F (probs0, g) = Inr (probs, g') \<Longrightarrow>
     list_all (\<lambda>p. 0 \<le> p \<and> p \<le> 1) probs0 \<Longrightarrow> list_all (\<lambda>p. 0 \<le> p \<and> p \<le> 1) probs"
proof (induction n arbitrary: probs0 g)
  case 0
  then show ?case by simp
next
  case (Suc n)
  from run_simulations_step [OF Suc.prems(1)] obtain sim g1 where
    r: "run_simulations n c risk F
       (probs0 @ [predict_churn_risk_simplified_rnn (events c @ sim) default_history_length], g1)
       = Inr (probs, g')" .
  have "list_all (\<lambda>p. 0 \<le> p \<and> p \<le> 1)
          (probs0 @ [predict_churn_risk_simplified_rnn (events c @ sim) default_history_length])"
    using Suc.prems(2) predict_range by simp
  from Suc.IH [OF r this] show ?case .
qed

lemma run_simulations_zero:
  assumes "strptime (last_activity_date c) = Inr d0"
    and "d0 \<noteq> \<lparr>year = 9999, month = 12, day = 31\<rparr>" and "F \<le> 0"
  shows "run_simulations n c risk F (probs, g)
           = Inr (probs @ replicate n
                    (predict_churn_risk_simplified_rnn (events c) default_history_length), g)"
proof (induction n arbitrary: probs)
  case 0
  show ?case by simp
next
  case (Suc n)
  show ?case
    by (simp add: simulate_trial_zero [OF assms] Suc.IH replicate_app_Cons_same)
qed

lemma run_simulations_nonpositive:
  "F \<le> 0 \<Longrightarrow> run_simulations n c risk F st = run_simulations n c risk 0 st"
proof (induction n arbitrary: st)
  case 0
  show ?case by simp
next
  case (Suc n)
  obtain probs g where st: "st = (probs, g)" by (cases st)
  from Suc show ?case
    by (simp add: st simulate_trial_nonpositive [of F] split: sum.splits)
qed

lemma np_mean_replicate: "0 < n \<Longrightarrow> np_mean (replicate n x) = Some x"
  by (simp add: np_mean_def sum_list_replicate)

lemma np_std_replicate: "0 < n \<Longrightarrow> np_std (replicate n x) = Some 0"
  by (simp add: np_std_def sum_list_replicate Let_def map_replicate)

section \<open>The forecaster as a whole\<close>

lemma strptime_june: "strptime ''2024-06-15'' = Inr \<lparr>year = 2024, month = 6, day = 15\<rparr>"
  by (simp add: strptime_def is_digit_def is_nonzero_digit_def digit_value_def
      days_in_month_def is_leap_def)

lemma strptime_last_day: "strptime ''9999-12-31'' = Inr \<lparr>year = 9999, month = 12, day = 31\<rparr>"
  by (simp add: strptime_def is_digit_def is_nonzero_digit_def digit_value_def
      days_in_month_def is_leap_def)

lemma strptime_slashes: "strptime ''15/06/2024'' = Inl ValueError"
  by (simp add: strptime_def is_digit_def)

lemma forecast_no_trials:
  "N < 1 \<Longrightarrow> monte_carlo_churn_prediction c N F g = Inr ((None, None, []), g)"
  by (simp add: monte_carlo_churn_prediction_def np_mean_def np_std_def)

lemma forecast_nonpositive_days:
  "F \<le> 0 \<Longrightarrow> monte_carlo_churn_prediction c N F g = monte_carlo_churn_prediction c N 0 g"
  by (simp add: monte_carlo_churn_prediction_def run_simulations_nonpositive [of F])

lemma forecast_zero:
  assumes "strptime (last_activity_date c) = Inr d0"
    and "d0 \<noteq> \<lparr>year = 9999, month = 12, day = 31\<rparr>" and "F \<le> 0" and "1 \<le> N"
  shows "monte_carlo_churn_prediction c N F g
           = Inr ((Some (predict_churn_risk_simplified_rnn (events c) default_history_length),
                   Some 0,
                   replicate (nat N)
                     (predict_churn_risk_simplified_rnn (events c) default_history_length)), g)"
proof -
  from assms(4) have "0 < nat N" by simp
  then show ?thesis
    by (simp add: monte_carlo_churn_prediction_def run_simulations_zero [OF assms(1-3)]
        np_mean_replicate np_std_replicate)
qed

lemma forecast_returns:
  assumes "strptime (last_activity_date c) = Inr d0" and "year d0 + 1 + nat F \<le> 9999"
  shows "\<exists>r. monte_carlo_churn_prediction c N F g = Inr r"
proof -
  let ?risk = "predict_churn_risk_simplified_rnn (events c) default_history_length"
  from run_simulations_returns [OF assms] obtain r where
    r: "run_simulations (nat N) c ?risk F ([], g) = Inr r" by blast
  obtain probs g' where "r = (probs, g')" by (cases r)
  with r show ?thesis by (simp add: monte_carlo_churn_prediction_def)
qed

lemma forecast_result:
  assumes "monte_carlo_churn_prediction c N F g = Inr ((m, s, probs), g')"
  shows "length probs = nat N \<and> list_all (\<lambda>p. 0 \<le> p \<and> p \<le> 1) probs"
proof -
  let ?risk = "predict_churn_risk_simplified_rnn (events c) default_history_length"
  from assms obtain r where r: "run_simulations (nat N) c ?risk F ([], g) = Inr r"
    by (cases "run_simulations (nat N) c ?risk F ([], g)")
      (simp_all add: monte_carlo_churn_prediction_def)
  obtain probs' g2 where r': "r = (probs', g2)" by (cases r)
  from assms r r' have "probs' = probs" "g2 = g'"
    by (simp_all add: monte_carlo_churn_prediction_def)
  with r r' have "run_simulations (nat N) c ?risk F ([], g) = Inr (probs, g')" by simp
  from run_simulations_length [OF this] run_simulations_range [OF this] show ?thesis by simp
qed

section \<open>Claims about the forecaster\<close>

text \<open>
  C7: in every trial that returns, for every state of the random generator, the trial
  has simulated \<open>forecast_days\<close> events and each of them has its type among \<open>login\<close>,
  \<open>view_feature\<close>, \<open>make_purchase\<close>, \<open>support_query\<close> and \<open>inactivity\<close>; none is an
  \<open>upgrade_plan\<close>.
\<close>

theorem simulated_future_vocabulary:
  assumes "simulate_trial c risk F g = Inr (sim, p, g')"
  shows "length sim = nat F \<and>
         (\<forall>e\<in>set sim. type e \<in> {''login'', ''view_feature'', ''make_purchase'',
                                  ''support_query'', ''inactivity''}
                        \<and> type e \<noteq> ''upgrade_plan'')"
proof -
  from simulate_trial_result [OF assms]
  have "list_all future_type sim" and "length sim = nat F" by simp_all
  then show ?thesis
    by (auto simp add: list_all_iff future_type_def)
qed

text \<open>C7, at a trial of two days from 2024-06-15: the trial returns, and its first event.\<close>

theorem simulated_future_vocabulary_witness:
  "\<exists>sim p g'.
     simulate_trial \<lparr>events = [], last_activity_date = ''2024-06-15''\<rparr> (1 / 2) 2 (sconst 0)
       = Inr (sim, p, g')
     \<and> length sim = 2
     \<and> type (sim ! 0) \<in> {''login'', ''view_feature'', ''make_purchase'',
                          ''support_query'', ''inactivity''}
     \<and> type (sim ! 0) \<noteq> ''upgrade_plan''"
proof -
  let ?c = "\<lparr>events = [], last_activity_date = ''2024-06-15''\<rparr>"
  have d: "strptime (last_activity_date ?c) = Inr \<lparr>year = 2024, month = 6, day = 15\<rparr>"
    by (simp add: strptime_june)
  have "year \<lparr>year = 2024, month = 6, day = 15\<rparr> + 1 + nat 2 \<le> 9999" by simp
  from simulate_trial_returns [OF d this, of "1 / 2" "sconst 0"]
  obtain r where r: "simulate_trial ?c (1 / 2) 2 (sconst 0) = Inr r" by blast
  obtain sim p g' where "r = (sim, p, g')" by (cases r)
  with r have t: "simulate_trial ?c (1 / 2) 2 (sconst 0) = Inr (sim, p, g')" by simp
  from simulated_future_vocabulary [OF t]
  have l: "length sim = 2" and
    v: "\<forall>e\<in>set sim. type e \<in> {''login'', ''view_feature'', ''make_purchase'',
                                ''support_query'', ''inactivity''}
                      \<and> type e \<noteq> ''upgrade_plan''" by simp_all
  from l have "sim ! 0 \<in> set sim" by simp
  with v have "type (sim ! 0) \<in> {''login'', ''view_feature'', ''make_purchase'',
                                ''support_query'', ''inactivity''}
                      \<and> type (sim ! 0) \<noteq> ''upgrade_plan''" by (rule bspec)
  with t l show ?thesis by blast
qed

text \<open>
  C9, as the code has it: the date is parsed inside the loop over the trials, so with
  \<open>num_simulations \<ge> 1\<close> a \<open>last_activity_date\<close> that \<open>strptime\<close> rejects makes the
  forecaster raise that \<open>ValueError\<close>; no result is returned and no other date is used.
\<close>

theorem malformed_date_raises:
  assumes "strptime (last_activity_date c) = Inl e" and "1 \<le> N"
  shows "monte_carlo_churn_prediction c N F g = Inl e \<and> e = ValueError"
proof -
  from assms(2) obtain n where n: "nat N = Suc n" by (cases "nat N") simp_all
  show ?thesis
    by (simp add: monte_carlo_churn_prediction_def n Let_def run_simulations_error [OF assms(1)]
        strptime_error [OF assms(1)] del: run_simulations.simps)
qed

text \<open>C9 as amended, at the date string 15/06/2024 and the default parameters.\<close>

theorem malformed_date_raises_witness:
  "strptime (last_activity_date \<lparr>events = [], last_activity_date = ''15/06/2024''\<rparr>) = Inl ValueError
   \<and> monte_carlo_churn_prediction \<lparr>events = [], last_activity_date = ''15/06/2024''\<rparr> 100 90 (sconst 0)
       = Inl ValueError"
proof -
  have d: "strptime (last_activity_date \<lparr>events = [], last_activity_date = ''15/06/2024''\<rparr>) = Inl ValueError"
    by (simp add: strptime_slashes)
  from malformed_date_raises [OF d, of 100 90 "sconst 0"] d show ?thesis by simp
qed

text \<open>
  C9 as stated fails: with \<open>num_simulations = 0\<close> the loop body never runs, the
  unparseable date is never read and the forecaster returns a result (\<open>nan\<close>, \<open>nan\<close> and
  no samples).
\<close>

theorem malformed_date_counterexample:
  "strptime (last_activity_date \<lparr>events = [], last_activity_date = ''15/06/2024''\<rparr>) = Inl ValueError
   \<and> monte_carlo_churn_prediction \<lparr>events = [], last_activity_date = ''15/06/2024''\<rparr> 0 90 (sconst 0)
       = Inr ((None, None, []), sconst 0)"
  by (simp add: strptime_slashes forecast_no_trials)

text \<open>
  C2, as the code has it: the forecaster validates neither parameter. With
  \<open>num_simulations < 1\<close> it returns \<open>nan\<close>, \<open>nan\<close> and an empty list of samples,
  leaving the generator untouched; with \<open>forecast_days < 0\<close> it behaves as with
  \<open>forecast_days = 0\<close>.
\<close>

theorem invalid_parameters_not_rejected:
  "(N < 1 \<longrightarrow> monte_carlo_churn_prediction c N F g = Inr ((None, None, []), g)) \<and>
   (F < 0 \<longrightarrow> monte_carlo_churn_prediction c N F g = monte_carlo_churn_prediction c N 0 g)"
proof (intro conjI impI)
  assume "N < 1"
  then show "monte_carlo_churn_prediction c N F g = Inr ((None, None, []), g)"
    by (rule forecast_no_trials)
next
  assume "F < 0"
  then have "F \<le> 0" by simp
  then show "monte_carlo_churn_prediction c N F g = monte_carlo_churn_prediction c N 0 g"
    by (rule forecast_nonpositive_days)
qed

text \<open>C2 as amended, at \<open>num_simulations = 0\<close> and at \<open>forecast_days = -1\<close>.\<close>

theorem invalid_parameters_not_rejected_witness:
  "(0::int) < 1 \<and> (- 1::int) < 0
   \<and> monte_carlo_churn_prediction \<lparr>events = [], last_activity_date = ''2024-06-15''\<rparr> 0 90 (sconst 0)
       = Inr ((None, None, []), sconst 0)
   \<and> monte_carlo_churn_prediction \<lparr>events = [], last_activity_date = ''2024-06-15''\<rparr> 100 (- 1) (sconst 0)
       = monte_carlo_churn_prediction \<lparr>events = [], last_activity_date = ''2024-06-15''\<rparr> 100 0 (sconst 0)"
  using invalid_parameters_not_rejected
      [of 0 "\<lparr>events = [], last_activity_date = ''2024-06-15''\<rparr>" 90 "sconst 0"]
    invalid_parameters_not_rejected
      [of 100 "\<lparr>events = [], last_activity_date = ''2024-06-15''\<rparr>" "- 1" "sconst 0"]
  by simp

text \<open>
  C2 as stated fails: a call with \<open>num_simulations = 0\<close> and a call with
  \<open>forecast_days = -1\<close> both return a result instead of an error.
\<close>

theorem invalid_parameters_counterexample:
  "monte_carlo_churn_prediction \<lparr>events = [], last_activity_date = ''2024-06-15''\<rparr> 0 90 (sconst 0)
     = Inr ((None, None, []), sconst 0)
   \<and> monte_carlo_churn_prediction \<lparr>events = [], last_activity_date = ''2024-06-15''\<rparr> 1 (- 1) (sconst 0)
     = Inr ((Some (1 / 2), Some 0, [1 / 2]), sconst 0)"
proof -
  let ?c = "\<lparr>events = [], last_activity_date = ''2024-06-15''\<rparr>"
  have d: "strptime (last_activity_date ?c) = Inr \<lparr>year = 2024, month = 6, day = 15\<rparr>"
    by (simp add: strptime_june)
  have "monte_carlo_churn_prediction ?c 1 (- 1) (sconst 0)
          = Inr ((Some (predict_churn_risk_simplified_rnn (events ?c) default_history_length),
                  Some 0,
                  replicate (nat 1)
                    (predict_churn_risk_simplified_rnn (events ?c) default_history_length)),
                 sconst 0)"
    by (rule forecast_zero [OF d]) simp_all
  moreover have "predict_churn_risk_simplified_rnn (events ?c) default_history_length = 1 / 2"
    by (simp add: predict_logistic running_score_Nil)
  ultimately show ?thesis by (simp add: forecast_no_trials)
qed

text \<open>
  C5: for \<open>num_simulations = N \<ge> 1\<close> and \<open>forecast_days \<ge> 0\<close>, whenever the forecaster
  returns, its list of samples has exactly \<open>N\<close> elements and each lies in the closed
  interval from 0 to 1; it does return when the date parses and the simulated days stay
  within the calendar (the year plus one plus \<open>forecast_days\<close> is at most 9999); and every
  result of the scorer lies in the same interval.
\<close>

theorem forecast_samples:
  assumes "1 \<le> N" and "0 \<le> F"
  shows "(\<forall>m s probs g'.
            monte_carlo_churn_prediction c N F g = Inr ((m, s, probs), g') \<longrightarrow>
              int (length probs) = N \<and> (\<forall>p\<in>set probs. 0 \<le> p \<and> p \<le> 1))
       \<and> (\<forall>d0. strptime (last_activity_date c) = Inr d0 \<and> year d0 + 1 + nat F \<le> 9999 \<longrightarrow>
              (\<exists>m s probs g'. monte_carlo_churn_prediction c N F g = Inr ((m, s, probs), g')))
       \<and> 0 \<le> predict_churn_risk_simplified_rnn h k
       \<and> predict_churn_risk_simplified_rnn h k \<le> 1"
proof (intro conjI allI impI)
  fix m s probs g'
  assume "monte_carlo_churn_prediction c N F g = Inr ((m, s, probs), g')"
  from forecast_result [OF this]
  have l: "length probs = nat N" and r: "list_all (\<lambda>p. 0 \<le> p \<and> p \<le> 1) probs" by simp_all
  from l assms(1) show "int (length probs) = N" by simp
  from r show "\<forall>p\<in>set probs. 0 \<le> p \<and> p \<le> 1" by (simp add: list_all_iff)
next
  fix d0
  assume "strptime (last_activity_date c) = Inr d0 \<and> year d0 + 1 + nat F \<le> 9999"
  then have a: "strptime (last_activity_date c) = Inr d0"
    and b: "year d0 + 1 + nat F \<le> 9999" by simp_all
  from forecast_returns [OF a b]
  have "\<exists>r. monte_carlo_churn_prediction c N F g = Inr r" .
  then show "\<exists>m s probs g'. monte_carlo_churn_prediction c N F g = Inr ((m, s, probs), g')"
    by (metis prod.exhaust)
next
  show "0 \<le> predict_churn_risk_simplified_rnn h k" by (simp add: predict_range)
  show "predict_churn_risk_simplified_rnn h k \<le> 1" by (simp add: predict_range)
qed

text \<open>C5, at a one-event customer with 50 trials of 90 days: the call returns 50 samples.\<close>

theorem forecast_samples_witness:
  "\<exists>m s probs g'.
     monte_carlo_churn_prediction
       \<lparr>events = [\<lparr>date = ''2024-06-15'', type = ''login''\<rparr>], last_activity_date = ''2024-06-15''\<rparr>
       50 90 (sconst 0) = Inr ((m, s, probs), g')
     \<and> int (length probs) = 50 \<and> 0 \<le> probs ! 0 \<and> probs ! 0 \<le> 1"
proof -
  let ?c = "\<lparr>events = [\<lparr>date = ''2024-06-15'', type = ''login''\<rparr>],
              last_activity_date = ''2024-06-15''\<rparr>"
  have n: "(1::int) \<le> 50" and f: "(0::int) \<le> 90" by simp_all
  note w = forecast_samples [OF n f, of ?c "sconst 0" "[]" 30]
  have d: "strptime (last_activity_date ?c) = Inr \<lparr>year = 2024, month = 6, day = 15\<rparr>
             \<and> year \<lparr>year = 2024, month = 6, day = 15\<rparr> + 1 + nat 90 \<le> 9999"
    by (simp add: strptime_june)
  with w obtain m s probs g' where
    r: "monte_carlo_churn_prediction ?c 50 90 (sconst 0) = Inr ((m, s, probs), g')" by blast
  with w have l: "int (length probs) = 50" and b: "\<forall>p\<in>set probs. 0 \<le> p \<and> p \<le> 1" by blast+
  from l have "probs ! 0 \<in> set probs" by (intro nth_mem) simp
  with b have "0 \<le> probs ! 0 \<and> probs ! 0 \<le> 1" by (rule bspec)
  with r l show ?thesis by blast
qed

text \<open>
  C6, as the code has it: for a customer whose \<open>last_activity_date\<close> parses to a date
  other than 9999-12-31 and for \<open>num_simulations = N \<ge> 1\<close>, the forecaster with
  \<open>forecast_days = 0\<close> returns \<open>N\<close> samples, each equal to the scorer's result on the
  original history; the mean is that score, the standard deviation is 0 and the
  generator is untouched.
\<close>

theorem forecast_zero_days:
  assumes "strptime (last_activity_date c) = Inr d0"
    and "d0 \<noteq> \<lparr>year = 9999, month = 12, day = 31\<rparr>" and "1 \<le> N"
  shows "monte_carlo_churn_prediction c N 0 g
           = Inr ((Some (predict_churn_risk_simplified_rnn (events c) default_history_length),
                   Some 0,
                   replicate (nat N)
                     (predict_churn_risk_simplified_rnn (events c) default_history_length)), g)"
  by (rule forecast_zero [OF assms(1,2) _ assms(3)]) simp

text \<open>C6 as amended, at a customer without history, last active on 2024-06-15, and three trials.\<close>

theorem forecast_zero_days_witness:
  "strptime (last_activity_date \<lparr>events = [], last_activity_date = ''2024-06-15''\<rparr>)
     = Inr \<lparr>year = 2024, month = 6, day = 15\<rparr>
   \<and> monte_carlo_churn_prediction \<lparr>events = [], last_activity_date = ''2024-06-15''\<rparr> 3 0 (sconst 0)
     = Inr ((Some (1 / 2), Some 0, [1 / 2, 1 / 2, 1 / 2]), sconst 0)"
proof -
  let ?c = "\<lparr>events = [], last_activity_date = ''2024-06-15''\<rparr>"
  have d: "strptime (last_activity_date ?c) = Inr \<lparr>year = 2024, month = 6, day = 15\<rparr>"
    by (simp add: strptime_june)
  have ne: "\<lparr>year = 2024, month = 6, day = 15\<rparr> \<noteq> \<lparr>year = 9999, month = 12, day = 31\<rparr>"
    by simp
  have n: "(1::int) \<le> 3" by simp
  have "predict_churn_risk_simplified_rnn (events ?c) default_history_length = 1 / 2"
    by (simp add: predict_logistic running_score_Nil)
  with forecast_zero_days [OF d ne n, of "sconst 0"] d show ?thesis
    by (simp add: numeral_3_eq_3)
qed

text \<open>
  C6 as stated fails: the date 9999-12-31 parses, but the step to the following day, taken
  in every trial before any event is simulated, leaves the range of \<open>datetime\<close>; the
  forecaster raises \<open>OverflowError\<close> and yields no samples.
\<close>

theorem forecast_zero_days_counterexample:
  "strptime (last_activity_date \<lparr>events = [], last_activity_date = ''9999-12-31''\<rparr>)
     = Inr \<lparr>year = 9999, month = 12, day = 31\<rparr>
   \<and> monte_carlo_churn_prediction \<lparr>events = [], last_activity_date = ''9999-12-31''\<rparr> 1 0 (sconst 0)
     = Inl OverflowError"
  by (simp add: strptime_last_day monte_carlo_churn_prediction_def simulate_trial_def
      add_one_day_def days_in_month_def)

end
